theory Spec2Isabelle
  imports Main
begin

section \<open>Errors\<close>

text \<open>
  Go errors as values. \<open>ErrInvalidConfig\<close> is the sentinel of package apiauth;
  \<open>ErrBadCredentials\<close> and \<open>ErrUnauthorized\<close> are the sentinels of bascule.
  \<open>Errorf\<close> is \<^verbatim>\<open>fmt.Errorf\<close> with no \<^verbatim>\<open>%w\<close> verb (its text),
  \<open>Wrapf e s\<close> is \<^verbatim>\<open>fmt.Errorf("%w: s", e)\<close>, \<open>Join\<close> is \<^verbatim>\<open>errors.Join\<close>, and
  \<open>LibraryError\<close> is an error handed back by a call into jwx, bascule or arrange.
\<close>

datatype error =
    ErrInvalidConfig
  | ErrBadCredentials
  | ErrUnauthorized
  | Errorf string
  | Wrapf error string
  | Join error error
  | LibraryError string

text \<open>\<^verbatim>\<open>errors.Is\<close>: the error itself, or one it wraps or joins.\<close>

fun errors_Is :: "error \<Rightarrow> error \<Rightarrow> bool" where
  "errors_Is (Wrapf e s) target = (Wrapf e s = target \<or> errors_Is e target)"
| "errors_Is (Join a b) target = (Join a b = target \<or> errors_Is a target \<or> errors_Is b target)"
| "errors_Is e target = (e = target)"

section \<open>Keys (mapAlgs.go)\<close>

text \<open>
  \<^verbatim>\<open>jwa.KeyType\<close> and \<^verbatim>\<open>jwa.SignatureAlgorithm\<close> are Go string types; their
  constants are the strings of the JOSE registry.
\<close>

type_synonym KeyType = string
type_synonym SignatureAlgorithm = string

definition RSA :: KeyType where "RSA = ''RSA''"
definition OKP :: KeyType where "OKP = ''OKP''"
definition EC :: KeyType where "EC = ''EC''"

definition RS256 :: SignatureAlgorithm where "RS256 = ''RS256''"
definition RS384 :: SignatureAlgorithm where "RS384 = ''RS384''"
definition RS512 :: SignatureAlgorithm where "RS512 = ''RS512''"
definition PS256 :: SignatureAlgorithm where "PS256 = ''PS256''"
definition PS384 :: SignatureAlgorithm where "PS384 = ''PS384''"
definition PS512 :: SignatureAlgorithm where "PS512 = ''PS512''"
definition ES256 :: SignatureAlgorithm where "ES256 = ''ES256''"
definition ES384 :: SignatureAlgorithm where "ES384 = ''ES384''"
definition ES512 :: SignatureAlgorithm where "ES512 = ''ES512''"
definition EdDSA :: SignatureAlgorithm where "EdDSA = ''EdDSA''"

text \<open>
  \<^verbatim>\<open>elliptic.Curve\<close> is an interface; \<^verbatim>\<open>elliptic.P256()\<close> and its siblings are
  the values the switch of \<^verbatim>\<open>keyToAlgs\<close> compares against. \<open>CustomCurve\<close> stands for
  any other implementation.
\<close>

datatype Curve = P224 | P256 | P384 | P521 | CustomCurve string

text \<open>The Go value \<^verbatim>\<open>key.Raw(&raw)\<close> stores: the type switch of \<^verbatim>\<open>keyToAlgs\<close>
  tells \<^verbatim>\<open>*ecdsa.PublicKey\<close> and \<^verbatim>\<open>*ecdsa.PrivateKey\<close> from everything else.\<close>

datatype RawKey = ECDSAPublicKey Curve | ECDSAPrivateKey Curve | OtherRawKey

text \<open>
  A \<^verbatim>\<open>jwk.Key\<close>, by what its accessors return: \<open>KeyType\<close>, \<open>Algorithm\<close> (the
  string of \<^verbatim>\<open>key.Algorithm()\<close>, empty when the key declares none), \<open>KeyID\<close>,
  \<open>Raw\<close> (the outcome of \<^verbatim>\<open>key.Raw\<close>: \<open>Inl\<close> the library's error text) and
  \<open>Material\<close> (all the other fields of the key).
\<close>

record Key =
  KeyType :: KeyType
  Algorithm :: string
  KeyID :: string
  Raw :: "string + RawKey"
  Material :: string

text \<open>The inner switch on \<^verbatim>\<open>k.Curve\<close>, the same in both arms of the type switch:
  \<open>None\<close> is falling out of the switch.\<close>

fun curveToAlgs :: "Curve \<Rightarrow> SignatureAlgorithm list option" where
  "curveToAlgs P256 = Some [ES256]"
| "curveToAlgs P384 = Some [ES384]"
| "curveToAlgs P521 = Some [ES512]"
| "curveToAlgs _ = None"

definition unsupported :: "KeyType \<Rightarrow> error" where
  "unsupported kt = Errorf (''unsupported key type '' @ kt)"

definition keyToAlgs :: "Key \<Rightarrow> error + SignatureAlgorithm list" where
  "keyToAlgs key =
     (let kt = KeyType key in
      if kt = RSA then Inr [RS256, RS384, RS512, PS256, PS384, PS512]
      else if kt = OKP then Inr [EdDSA]
      else if kt = EC then
        (case Raw key of
           Inl err \<Rightarrow> Inl (LibraryError err)
         | Inr (ECDSAPublicKey crv) \<Rightarrow>
             (case curveToAlgs crv of Some algs \<Rightarrow> Inr algs | None \<Rightarrow> Inl (unsupported kt))
         | Inr (ECDSAPrivateKey crv) \<Rightarrow>
             (case curveToAlgs crv of Some algs \<Rightarrow> Inr algs | None \<Rightarrow> Inl (unsupported kt))
         | Inr OtherRawKey \<Rightarrow> Inl (unsupported kt))
      else Inl (unsupported kt))"

text \<open>
  The three jwx calls of the loop, on keys as values. \<^verbatim>\<open>Clone\<close> copies every field;
  \<^verbatim>\<open>Set(jwk.AlgorithmKey, alg)\<close> with a \<^verbatim>\<open>jwa.SignatureAlgorithm\<close> stores it as
  the key's algorithm; \<^verbatim>\<open>AddKey\<close> appends, and refuses only a key object that is
  already in the set, which neither a key of the set being read (each object is held once)
  nor a fresh clone can be. Each returns an error in Go, so each is a result here and the
  loop keeps its three early returns.
\<close>

definition Clone :: "Key \<Rightarrow> error + Key" where
  "Clone key = Inr key"

definition Set_Algorithm :: "Key \<Rightarrow> SignatureAlgorithm \<Rightarrow> error + Key" where
  "Set_Algorithm key alg = Inr (key\<lparr>Algorithm := alg\<rparr>)"

definition AddKey :: "Key list \<Rightarrow> Key \<Rightarrow> error + Key list" where
  "AddKey keys key = Inr (keys @ [key])"

text \<open>The inner loop \<^verbatim>\<open>for _, alg := range algs\<close>; \<open>Inl\<close> is an early return.\<close>

fun addClones :: "Key \<Rightarrow> SignatureAlgorithm list \<Rightarrow> Key list \<Rightarrow> error + Key list" where
  "addClones key [] newKeys = Inr newKeys"
| "addClones key (alg # algs) newKeys =
     (case Clone key of
        Inl err \<Rightarrow> Inl err
      | Inr keyDup \<Rightarrow>
          (case Set_Algorithm keyDup alg of
             Inl err \<Rightarrow> Inl err
           | Inr keyDup' \<Rightarrow>
               (case AddKey newKeys keyDup' of
                  Inl err \<Rightarrow> Inl err
                | Inr newKeys' \<Rightarrow> addClones key algs newKeys')))"

text \<open>The outer loop \<^verbatim>\<open>for keys.Next(ctx)\<close> over the keys still to visit, with
  \<open>newKeys\<close> as built so far; \<open>Inl\<close> is an early return with that error.\<close>

fun mapKeys :: "Key list \<Rightarrow> Key list \<Rightarrow> error + Key list" where
  "mapKeys [] newKeys = Inr newKeys"
| "mapKeys (key # keys) newKeys =
     (if Algorithm key \<noteq> '''' then
        (case AddKey newKeys key of
           Inl err \<Rightarrow> Inl err
         | Inr newKeys' \<Rightarrow> mapKeys keys newKeys')
      else
        (case keyToAlgs key of
           Inl err \<Rightarrow> Inl err
         | Inr algs \<Rightarrow>
             (case addClones key algs newKeys of
                Inl err \<Rightarrow> Inl err
              | Inr newKeys' \<Rightarrow> mapKeys keys newKeys')))"

text \<open>
  The \<^verbatim>\<open>jwk.PostFetchFunc\<close> that \<^verbatim>\<open>mapMissingAlgorithms\<close> returns. Go returns a
  pair: on every early return the set it was given, untouched, with the error; at the
  end the new set with \<^verbatim>\<open>nil\<close>.
\<close>

definition mapMissingAlgorithms :: "string \<Rightarrow> Key list \<Rightarrow> Key list \<times> error option" where
  "mapMissingAlgorithms url keySet =
     (case mapKeys keySet [] of
        Inl err \<Rightarrow> (keySet, Some err)
      | Inr newKeys \<Rightarrow> (newKeys, None))"

section \<open>Tokens and validators\<close>

text \<open>
  A \<^verbatim>\<open>bascule.Token\<close>, by the type assertions the validators make on it: a
  \<^verbatim>\<open>basculehttp.BasicToken\<close> with its user name and password, a
  \<^verbatim>\<open>basculejwt.Claims\<close> with its principal and the list that
  \<^verbatim>\<open>bascule.GetCapabilities\<close> returns for it (empty when the token declares none),
  or a token of any other kind with its principal.
\<close>

datatype Token =
    BasicToken string string
  | Claims string "string list"
  | OtherToken string

text \<open>
  \<^verbatim>\<open>type Basic map[string]string\<close>: \<open>None\<close> is the nil map, \<open>Some\<close> the entries
  of a map in the order \<^verbatim>\<open>range\<close> visits them (Go leaves that order open).
\<close>

type_synonym Basic = "(string \<times> string) list option"

definition entries :: "Basic \<Rightarrow> (string \<times> string) list" where
  "entries cfg = (case cfg of None \<Rightarrow> [] | Some kvs \<Rightarrow> kvs)"

text \<open>The loop of \<^verbatim>\<open>Basic.valid\<close>: \<open>True\<close> is its \<^verbatim>\<open>return nil\<close>.\<close>

fun rangeBasic :: "(string \<times> string) list \<Rightarrow> string \<Rightarrow> string \<Rightarrow> bool" where
  "rangeBasic [] userName password = False"
| "rangeBasic ((u, p) # rest) userName password =
     (if userName = u \<and> password = p then True else rangeBasic rest userName password)"

text \<open>A Go \<^verbatim>\<open>error\<close> result: \<open>None\<close> is \<^verbatim>\<open>nil\<close>.\<close>

definition Basic_valid :: "Basic \<Rightarrow> Token \<Rightarrow> error option" where
  "Basic_valid cfg token =
     (case token of
        BasicToken userName password \<Rightarrow>
          if rangeBasic (entries cfg) userName password then None else Some ErrBadCredentials
      | _ \<Rightarrow> Some ErrBadCredentials)"

section \<open>Configuration\<close>

text \<open>
  \<^verbatim>\<open>arrangehttp.ClientConfig\<close> is declared outside this repository. It is kept as the
  list of its settings that differ from their zero value, so that its zero value is the
  empty list.
\<close>

datatype ClientConfig = ClientConfig "(string \<times> string) list"

text \<open>\<^verbatim>\<open>time.Duration\<close> is a count of nanoseconds.\<close>

record Provider =
  URL :: string
  RefreshInterval :: int
  HTTPClient :: ClientConfig
  DisableAutoAddMissingAlgorithm :: bool

text \<open>A slice is \<open>None\<close> when nil: \<^verbatim>\<open>reflect.DeepEqual\<close> tells a nil slice from an
  empty one, \<^verbatim>\<open>len\<close> and \<^verbatim>\<open>range\<close> do not.\<close>

definition slice :: "'a list option \<Rightarrow> 'a list" where
  "slice s = (case s of None \<Rightarrow> [] | Some xs \<Rightarrow> xs)"

record JWT =
  KeyProvider :: Provider
  RequiredServiceCapabilities :: "string list option"

record Config =
  Disable :: bool
  Basic :: Basic
  JWT :: JWT

definition Provider_zero :: Provider where
  "Provider_zero =
     \<lparr>URL = '''', RefreshInterval = 0, HTTPClient = ClientConfig [],
      DisableAutoAddMissingAlgorithm = False\<rparr>"

definition JWT_zero :: JWT where
  "JWT_zero = \<lparr>KeyProvider = Provider_zero, RequiredServiceCapabilities = None\<rparr>"

text \<open>\<^verbatim>\<open>Config{}\<close>.\<close>

definition Config_zero :: Config where
  "Config_zero = \<lparr>Disable = False, Basic = None, JWT = JWT_zero\<rparr>"

text \<open>
  \<^verbatim>\<open>reflect.DeepEqual\<close> on two \<^verbatim>\<open>Config\<close> values, field by field: two maps are
  deeply equal when both are nil or both are not and they hold the same entries; the
  other fields are compared as values.
\<close>

definition DeepEqual_Basic :: "Basic \<Rightarrow> Basic \<Rightarrow> bool" where
  "DeepEqual_Basic a b =
     (case (a, b) of
        (None, None) \<Rightarrow> True
      | (Some x, Some y) \<Rightarrow> set x = set y
      | _ \<Rightarrow> False)"

definition DeepEqual :: "Config \<Rightarrow> Config \<Rightarrow> bool" where
  "DeepEqual a b =
     (Disable a = Disable b \<and> DeepEqual_Basic (Basic a) (Basic b) \<and> JWT a = JWT b)"

section \<open>JWT.valid\<close>

text \<open>The inner loop over \<^verbatim>\<open>cfg.RequiredServiceCapabilities\<close> and the outer loop
  over the token's capabilities: \<open>True\<close> is the \<^verbatim>\<open>return nil\<close> inside them.\<close>

fun rangeRequired :: "string \<Rightarrow> string list \<Rightarrow> bool" where
  "rangeRequired capability [] = False"
| "rangeRequired capability (serviceCapability # rest) =
     (if capability = serviceCapability then True else rangeRequired capability rest)"

fun rangeCapabilities :: "string list \<Rightarrow> string list \<Rightarrow> bool" where
  "rangeCapabilities [] required = False"
| "rangeCapabilities (capability # rest) required =
     (if rangeRequired capability required then True else rangeCapabilities rest required)"

definition JWT_valid :: "JWT \<Rightarrow> Token \<Rightarrow> error option" where
  "JWT_valid cfg token =
     (case token of
        Claims subject capabilities \<Rightarrow>
          if length (slice (RequiredServiceCapabilities cfg)) = 0 then None
          else if rangeCapabilities capabilities (slice (RequiredServiceCapabilities cfg))
          then None
          else Some ErrUnauthorized
      | _ \<Rightarrow> Some ErrBadCredentials)"

section \<open>Building the middleware\<close>

text \<open>
  The constructors of basculehttp, basculejwt, arrange and jwx that \<^verbatim>\<open>New\<close> reaches
  are outside this repository; each returns an error that the code checks. Their outcomes
  are a parameter: \<open>None\<close> is \<^verbatim>\<open>nil\<close>, \<open>Some s\<close> an error with text \<open>s\<close>.
\<close>

datatype Scheme = SchemeBasic | SchemeBearer

record library =
  NewAuthorizationParser :: "Scheme \<Rightarrow> string option"
  NewMiddleware :: "Scheme \<Rightarrow> string option"
  NewTokenParser :: "string option"
  NewClient :: "ClientConfig \<Rightarrow> string option"
  Register :: "string \<Rightarrow> string option"

text \<open>What \<^verbatim>\<open>jwk.NewCachedSet(cache, cfg.URL)\<close> stands for: the URL registered with
  the cache and the options it was registered with (\<open>PostFetcher\<close>: whether
  \<^verbatim>\<open>mapMissingAlgorithms\<close> was installed).\<close>

record CachedSet =
  SetURL :: string
  SetRefreshInterval :: int
  PostFetcher :: bool

definition toKeySet :: "library \<Rightarrow> Provider \<Rightarrow> error + CachedSet" where
  "toKeySet lib cfg =
     (case NewClient lib (HTTPClient cfg) of
        Some err \<Rightarrow> Inl (LibraryError err)
      | None \<Rightarrow>
          (case Register lib (URL cfg) of
             Some err \<Rightarrow> Inl (LibraryError err)
           | None \<Rightarrow>
               Inr \<lparr>SetURL = URL cfg, SetRefreshInterval = RefreshInterval cfg,
                    PostFetcher = (\<not> DisableAutoAddMissingAlgorithm cfg)\<rparr>))"

text \<open>A \<^verbatim>\<open>*basculehttp.Middleware\<close>, by the scheme it parses and the validator bound
  to it.\<close>

datatype Middleware = BasicMiddleware Basic | JWTMiddleware JWT CachedSet

definition Basic_middleware :: "library \<Rightarrow> Basic \<Rightarrow> error + Middleware" where
  "Basic_middleware lib cfg =
     (case NewAuthorizationParser lib SchemeBasic of
        Some err \<Rightarrow> Inl (LibraryError err)
      | None \<Rightarrow>
          (case NewMiddleware lib SchemeBasic of
             Some err \<Rightarrow> Inl (LibraryError err)
           | None \<Rightarrow> Inr (BasicMiddleware cfg)))"

definition JWT_middleware :: "library \<Rightarrow> JWT \<Rightarrow> error + Middleware" where
  "JWT_middleware lib cfg =
     (case toKeySet lib (KeyProvider cfg) of
        Inl err \<Rightarrow> Inl (Join err (Errorf ''error getting public keys''))
      | Inr keys \<Rightarrow>
          (case NewTokenParser lib of
             Some err \<Rightarrow> Inl (Join (LibraryError err) (Errorf ''error creating token parser''))
           | None \<Rightarrow>
               (case NewAuthorizationParser lib SchemeBearer of
                  Some err \<Rightarrow>
                    Inl (Join (LibraryError err) (Errorf ''error creating authorization parser''))
                | None \<Rightarrow>
                    (case NewMiddleware lib SchemeBearer of
                       Some err \<Rightarrow> Inl (LibraryError err)
                     | None \<Rightarrow> Inr (JWTMiddleware cfg keys)))))"

section \<open>Options and New (options.go)\<close>

record Auth =
  middleware :: "Middleware option"
  config :: Config

text \<open>An \<^verbatim>\<open>Option\<close> applies itself to the \<^verbatim>\<open>Auth\<close> being built and may fail.\<close>

type_synonym Option = "Auth \<Rightarrow> error + Auth"

definition WithConfig :: "Config \<Rightarrow> Option" where
  "WithConfig c = (\<lambda>a. Inr (a\<lparr>config := c\<rparr>))"

definition expect :: Config where
  "expect = \<lparr>Disable = True, Basic = None, JWT = JWT_zero\<rparr>"

definition validate :: Option where
  "validate = (\<lambda>a.
     if Disable (config a) \<and> \<not> DeepEqual (config a) expect then
       Inl (Wrapf ErrInvalidConfig ''disable cannot have additional values'')
     else if DeepEqual (config a) Config_zero then
       Inl (Wrapf ErrInvalidConfig
         ''empty configuration is not valid, set 'disable' to true if no validation is wanted'')
     else Inr a)"

text \<open>The loop over \<^verbatim>\<open>opts\<close>; a nil option (\<open>None\<close>) is skipped.\<close>

fun applyOpts :: "Option option list \<Rightarrow> Auth \<Rightarrow> error + Auth" where
  "applyOpts [] auth = Inr auth"
| "applyOpts (None # opts) auth = applyOpts opts auth"
| "applyOpts (Some opt # opts) auth =
     (case opt auth of
        Inl err \<Rightarrow> Inl err
      | Inr auth' \<Rightarrow> applyOpts opts auth')"

definition New :: "library \<Rightarrow> Option option list \<Rightarrow> error + Auth" where
  "New lib opts =
     (case applyOpts (opts @ [Some validate]) \<lparr>middleware = None, config = Config_zero\<rparr> of
        Inl err \<Rightarrow> Inl err
      | Inr auth \<Rightarrow>
          (case
             (if Basic (config auth) \<noteq> None then
                (case Basic_middleware lib (Basic (config auth)) of
                   Inl err \<Rightarrow> Inl (Join err (Errorf ''error creating basic auth middleware''))
                 | Inr m \<Rightarrow> Inr (auth\<lparr>middleware := Some m\<rparr>))
              else Inr auth)
           of
             Inl err \<Rightarrow> Inl err
           | Inr auth \<Rightarrow>
               (if URL (KeyProvider (JWT (config auth))) \<noteq> '''' then
                  (case JWT_middleware lib (JWT (config auth)) of
                     Inl err \<Rightarrow> Inl (Join err (Errorf ''error creating jwt middleware''))
                   | Inr m \<Rightarrow> Inr (auth\<lparr>middleware := Some m\<rparr>))
                else Inr auth)))"

definition Protected :: "Auth \<Rightarrow> bool" where
  "Protected auth = (middleware auth \<noteq> None)"

text \<open>
  \<^verbatim>\<open>Auth.Then\<close>. A handler is a function from requests to what it does with them;
  \<open>ThenFunc\<close> is basculehttp's decoration of a handler by a middleware.
\<close>

definition Then :: "(Middleware \<Rightarrow> ('q \<Rightarrow> 'r) \<Rightarrow> 'q \<Rightarrow> 'r) \<Rightarrow> Auth \<Rightarrow> ('q \<Rightarrow> 'r) \<Rightarrow> 'q \<Rightarrow> 'r" where
  "Then ThenFunc auth h =
     (case middleware auth of
        None \<Rightarrow> h
      | Some m \<Rightarrow> ThenFunc m h)"

section \<open>Example keys\<close>

text \<open>
  The keys of \<^verbatim>\<open>mapAlgs_test.go\<close>: \<^verbatim>\<open>mustGenerateKey("rsa.private.kid123")\<close>,
  \<^verbatim>\<open>"ec.256.public.kid123"\<close>, \<^verbatim>\<open>"ec.384.private.kid123"\<close>, and the key of
  \<^verbatim>\<open>TestGetKeys\<close> (EC, P-256, \<^verbatim>\<open>"alg": "ES256"\<close>, \<^verbatim>\<open>"kid": "1"\<close>); then keys
  the tests do not have: an OKP key, a symmetric key (\<^verbatim>\<open>"kty": "oct"\<close>) and an EC key
  on P-224, none declaring an algorithm. The EC key on P-224 comes twice: \<open>ec_224_key\<close>
  is a key whose \<^verbatim>\<open>Raw\<close> hands out an ECDSA key on that curve (a \<^verbatim>\<open>jwk.Key\<close> made by
  hand), \<open>ec_224_jwx_key\<close> is the key as jwx holds it, whose \<^verbatim>\<open>Raw\<close> fails because
  the library has no such curve (the text of its error is the library's).
\<close>

definition rsa_private_kid123 :: Key where
  "rsa_private_kid123 =
     \<lparr>KeyType = RSA, Algorithm = '''', KeyID = ''kid123'', Raw = Inr OtherRawKey,
      Material = ''rsa-2048''\<rparr>"

definition ec_256_public_kid123 :: Key where
  "ec_256_public_kid123 =
     \<lparr>KeyType = EC, Algorithm = '''', KeyID = ''kid123'', Raw = Inr (ECDSAPublicKey P256),
      Material = ''x,y''\<rparr>"

definition ec_384_private_kid123 :: Key where
  "ec_384_private_kid123 =
     \<lparr>KeyType = EC, Algorithm = '''', KeyID = ''kid123'', Raw = Inr (ECDSAPrivateKey P384),
      Material = ''x,y,d''\<rparr>"

definition ec_es256_kid1 :: Key where
  "ec_es256_kid1 =
     \<lparr>KeyType = EC, Algorithm = ''ES256'', KeyID = ''1'', Raw = Inr (ECDSAPublicKey P256),
      Material = ''f83OJ3D2xF4a8u6B3T1t5w,x_FEzRu9Q5R5t5w''\<rparr>"

definition okp_key :: Key where
  "okp_key =
     \<lparr>KeyType = OKP, Algorithm = '''', KeyID = ''ed'', Raw = Inr OtherRawKey,
      Material = ''x''\<rparr>"

definition oct_key :: Key where
  "oct_key =
     \<lparr>KeyType = ''oct'', Algorithm = '''', KeyID = ''hmac'', Raw = Inr OtherRawKey,
      Material = ''k''\<rparr>"

definition ec_224_jwx_key :: Key where
  "ec_224_jwx_key =
     \<lparr>KeyType = EC, Algorithm = '''', KeyID = ''p224'',
      Raw = Inl ''invalid curve algorithm P-224'', Material = ''x,y''\<rparr>"

definition ec_224_key :: Key where
  "ec_224_key =
     \<lparr>KeyType = EC, Algorithm = '''', KeyID = ''p224'', Raw = Inr (ECDSAPrivateKey P224),
      Material = ''x,y,d''\<rparr>"

section \<open>Example configurations\<close>

text \<open>
  The configurations of \<^verbatim>\<open>auth_test.go\<close>: the table of \<^verbatim>\<open>TestBasicAuth\<close>, the key
  provider of \<^verbatim>\<open>TestJwtAuth\<close> (a URL and a refresh interval of 15 minutes), and the
  token that test signs, with its two capabilities; then a configuration with both.
\<close>

definition basic_config :: Config where
  "basic_config =
     \<lparr>Disable = False, Basic = Some [(''some-username'', ''some-password'')], JWT = JWT_zero\<rparr>"

definition jwt_config :: Config where
  "jwt_config =
     \<lparr>Disable = False, Basic = None,
      JWT = \<lparr>KeyProvider =
               \<lparr>URL = ''http://127.0.0.1:8080'', RefreshInterval = 900000000000,
                HTTPClient = ClientConfig [], DisableAutoAddMissingAlgorithm = False\<rparr>,
             RequiredServiceCapabilities = None\<rparr>\<rparr>"

definition both_config :: Config where
  "both_config = jwt_config\<lparr>Basic := Some [(''some-username'', ''some-password'')]\<rparr>"

definition test_token :: Token where
  "test_token = Claims ''test-subject'' [''example-capability'', ''alt-capability'']"

text \<open>The library when every constructor succeeds, and when the HTTP client cannot be
  built.\<close>

definition no_failures :: library where
  "no_failures =
     \<lparr>NewAuthorizationParser = (\<lambda>scheme. None), NewMiddleware = (\<lambda>scheme. None),
      NewTokenParser = None, NewClient = (\<lambda>client. None), Register = (\<lambda>url. None)\<rparr>"

definition no_client :: library where
  "no_client = no_failures\<lparr>NewClient := (\<lambda>client. Some ''tls: failed to find any PEM data'')\<rparr>"

text \<open>
  \<open>builds lib c\<close>: the library constructors that \<^verbatim>\<open>New\<close> reaches for the
  configuration \<open>c\<close> all return \<^verbatim>\<open>nil\<close> errors.
\<close>

definition builds :: "library \<Rightarrow> Config \<Rightarrow> bool" where
  "builds lib c \<longleftrightarrow>
     (Basic c \<noteq> None \<longrightarrow>
        NewAuthorizationParser lib SchemeBasic = None \<and> NewMiddleware lib SchemeBasic = None) \<and>
     (URL (KeyProvider (JWT c)) \<noteq> '''' \<longrightarrow>
        NewClient lib (HTTPClient (KeyProvider (JWT c))) = None \<and>
        Register lib (URL (KeyProvider (JWT c))) = None \<and>
        NewTokenParser lib = None \<and>
        NewAuthorizationParser lib SchemeBearer = None \<and> NewMiddleware lib SchemeBearer = None)"

section \<open>Algorithm inference\<close>

lemmas KeyType_defs = RSA_def OKP_def EC_def

lemmas SignatureAlgorithm_defs =
  RS256_def RS384_def RS512_def PS256_def PS384_def PS512_def
  ES256_def ES384_def ES512_def EdDSA_def

lemma keyToAlgs_RSA:
  "KeyType key = RSA \<Longrightarrow> keyToAlgs key = Inr [RS256, RS384, RS512, PS256, PS384, PS512]"
  by (simp add: keyToAlgs_def)

text \<open>An EC key whose raw form the library cannot produce: its error comes back as it
  is, and no algorithm is inferred.\<close>

lemma keyToAlgs_Raw_fails:
  "KeyType key = EC \<Longrightarrow> Raw key = Inl err \<Longrightarrow> keyToAlgs key = Inl (LibraryError err)"
  by (simp add: keyToAlgs_def KeyType_defs)

lemma curveToAlgs_nonempty:
  "curveToAlgs crv = Some algs \<Longrightarrow> alg \<in> set algs \<Longrightarrow> alg \<noteq> ''''"
  by (cases crv) (auto simp: SignatureAlgorithm_defs)

lemma algs_nonempty:
  "keyToAlgs key = Inr algs \<Longrightarrow> alg \<in> set algs \<Longrightarrow> alg \<noteq> ''''"
  by (auto simp: keyToAlgs_def Let_def SignatureAlgorithm_defs dest: curveToAlgs_nonempty
      split: if_splits sum.splits RawKey.splits option.splits)

text \<open>
  \<^bold>\<open>C5\<close>, as the code has it. Inference on an EC key first asks the library for the
  raw key. When that fails, as it does for an EC key on a curve the library does not
  have, the library's error is returned as it is: no algorithm, and not the error
  \<^verbatim>\<open>unsupported key type\<close>. When it gives an ECDSA key (public or private), the curve
  of that key fixes exactly one algorithm: P-256 gives ES256, P-384 gives ES384, P-521
  gives ES512, and any other curve gives the error \<^verbatim>\<open>unsupported key type EC\<close>, as does
  a raw key that is not an ECDSA key. An OKP key gives exactly EdDSA. A key whose type is
  none of RSA, OKP, EC gives the error \<^verbatim>\<open>unsupported key type\<close> with its type. (The
  declared algorithm plays no part: \<open>keyToAlgs\<close> never reads it.)
\<close>

theorem keyToAlgs_by_type_and_curve:
  "(KeyType key = EC \<and> Raw key = Inl err \<longrightarrow> keyToAlgs key = Inl (LibraryError err)) \<and>
   (KeyType key = EC \<and> (Raw key = Inr (ECDSAPublicKey crv) \<or> Raw key = Inr (ECDSAPrivateKey crv)) \<longrightarrow>
      keyToAlgs key =
        (if crv = P256 then Inr [ES256]
         else if crv = P384 then Inr [ES384]
         else if crv = P521 then Inr [ES512]
         else Inl (unsupported EC))) \<and>
   (KeyType key = EC \<and> Raw key = Inr OtherRawKey \<longrightarrow> keyToAlgs key = Inl (unsupported EC)) \<and>
   (KeyType key = OKP \<longrightarrow> keyToAlgs key = Inr [EdDSA]) \<and>
   (KeyType key \<notin> {RSA, OKP, EC} \<longrightarrow> keyToAlgs key = Inl (unsupported (KeyType key)))"
proof (intro conjI impI)
  assume "KeyType key = EC \<and> Raw key = Inl err"
  then show "keyToAlgs key = Inl (LibraryError err)"
    by (simp add: keyToAlgs_def KeyType_defs)
next
  assume ec: "KeyType key = EC \<and>
    (Raw key = Inr (ECDSAPublicKey crv) \<or> Raw key = Inr (ECDSAPrivateKey crv))"
  then have kt: "KeyType key \<noteq> RSA" "KeyType key \<noteq> OKP" "KeyType key = EC"
    by (simp_all add: KeyType_defs)
  have "curveToAlgs crv =
      (if crv = P256 then Some [ES256] else if crv = P384 then Some [ES384]
       else if crv = P521 then Some [ES512] else None)"
    by (cases crv) simp_all
  with ec kt show "keyToAlgs key =
        (if crv = P256 then Inr [ES256]
         else if crv = P384 then Inr [ES384]
         else if crv = P521 then Inr [ES512]
         else Inl (unsupported EC))"
    by (auto simp: keyToAlgs_def)
next
  assume "KeyType key = EC \<and> Raw key = Inr OtherRawKey"
  then show "keyToAlgs key = Inl (unsupported EC)"
    by (simp add: keyToAlgs_def KeyType_defs)
next
  assume "KeyType key = OKP"
  then show "keyToAlgs key = Inr [EdDSA]"
    by (simp add: keyToAlgs_def KeyType_defs)
next
  assume "KeyType key \<notin> {RSA, OKP, EC}"
  then show "keyToAlgs key = Inl (unsupported (KeyType key))"
    by (simp add: keyToAlgs_def)
qed

theorem keyToAlgs_by_type_and_curve_witness:
  "keyToAlgs ec_224_jwx_key = Inl (LibraryError ''invalid curve algorithm P-224'') \<and>
   keyToAlgs ec_256_public_kid123 = Inr [ES256] \<and>
   keyToAlgs ec_384_private_kid123 = Inr [ES384] \<and>
   keyToAlgs ec_224_key = Inl (Errorf ''unsupported key type EC'') \<and>
   keyToAlgs (ec_224_key\<lparr>Raw := Inr OtherRawKey\<rparr>) = Inl (Errorf ''unsupported key type EC'') \<and>
   keyToAlgs okp_key = Inr [EdDSA] \<and>
   keyToAlgs oct_key = Inl (Errorf ''unsupported key type oct'')"
  using keyToAlgs_by_type_and_curve
      [where key = ec_224_jwx_key and err = "''invalid curve algorithm P-224''"]
    keyToAlgs_by_type_and_curve [where key = ec_256_public_kid123 and crv = P256]
    keyToAlgs_by_type_and_curve [where key = ec_384_private_kid123 and crv = P384]
    keyToAlgs_by_type_and_curve [where key = ec_224_key and crv = P224]
    keyToAlgs_by_type_and_curve [where key = "ec_224_key\<lparr>Raw := Inr OtherRawKey\<rparr>"]
    keyToAlgs_by_type_and_curve [where key = okp_key]
    keyToAlgs_by_type_and_curve [where key = oct_key]
  by (simp add: ec_224_jwx_key_def ec_256_public_kid123_def ec_384_private_kid123_def
      ec_224_key_def okp_key_def oct_key_def KeyType_defs unsupported_def)

text \<open>
  \<^bold>\<open>C5\<close> as the specification states it (every EC key gets one algorithm from its
  curve, or the error \<^verbatim>\<open>unsupported key type\<close> on any other curve) fails on the EC key
  on P-224 as jwx holds it: \<^verbatim>\<open>key.Raw\<close> fails before the curve is looked at, and
  \<open>keyToAlgs\<close> returns that error, which is neither an algorithm nor
  \<^verbatim>\<open>unsupported key type EC\<close>.
\<close>

theorem keyToAlgs_other_curve_counterexample:
  "KeyType ec_224_jwx_key = EC \<and> Algorithm ec_224_jwx_key = '''' \<and>
   keyToAlgs ec_224_jwx_key = Inl (LibraryError ''invalid curve algorithm P-224'') \<and>
   keyToAlgs ec_224_jwx_key \<noteq> Inl (unsupported EC)"
  by (simp add: keyToAlgs_def ec_224_jwx_key_def KeyType_defs unsupported_def)

section \<open>The post-fetch mapping\<close>

lemma addClones_appends:
  "addClones key algs newKeys = Inr (newKeys @ map (\<lambda>alg. key\<lparr>Algorithm := alg\<rparr>) algs)"
  by (induction algs arbitrary: newKeys) (simp_all add: Clone_def Set_Algorithm_def AddKey_def)

text \<open>What the loop appends does not depend on what \<open>newKeys\<close> already holds.\<close>

lemma mapKeys_from:
  "mapKeys keys newKeys =
     (case mapKeys keys [] of Inl err \<Rightarrow> Inl err | Inr added \<Rightarrow> Inr (newKeys @ added))"
proof (induction keys arbitrary: newKeys)
  case Nil
  show ?case by simp
next
  case (Cons key keys)
  have step: "\<And>ks. mapKeys keys ks =
     (case mapKeys keys [] of Inl err \<Rightarrow> Inl err | Inr added \<Rightarrow> Inr (ks @ added))"
    by (rule Cons.IH)
  show ?case
  proof (cases "Algorithm key \<noteq> ''''")
    case True
    then show ?thesis
      by (simp add: AddKey_def step [of "newKeys @ [key]"] step [of "[key]"] split: sum.splits)
  next
    case False
    then show ?thesis
      by (simp add: addClones_appends step [of "newKeys @ _"] step [of "map _ _"]
          split: sum.splits)
  qed
qed

lemma mapKeys_append:
  "mapKeys (xs @ ys) newKeys =
     (case mapKeys xs newKeys of Inl err \<Rightarrow> Inl err | Inr newKeys' \<Rightarrow> mapKeys ys newKeys')"
  by (induction xs arbitrary: newKeys)
     (simp_all add: AddKey_def addClones_appends split: sum.splits)

text \<open>The loop over a set, seen from one of its keys: the keys before it, the key, the
  keys after it, in that order, and the first error ends it.\<close>

lemma mapKeys_split:
  "mapKeys (before @ key # after) [] =
     (case mapKeys before [] of
        Inl err \<Rightarrow> Inl err
      | Inr outBefore \<Rightarrow>
          (case mapKeys [key] [] of
             Inl err \<Rightarrow> Inl err
           | Inr outKey \<Rightarrow>
               (case mapKeys after [] of
                  Inl err \<Rightarrow> Inl err
                | Inr outAfter \<Rightarrow> Inr (outBefore @ outKey @ outAfter))))"
proof (cases "mapKeys before []")
  case (Inl err)
  then show ?thesis by (simp add: mapKeys_append)
next
  case before: (Inr outBefore)
  have one: "mapKeys (before @ key # after) [] =
      (case mapKeys [key] outBefore of Inl err \<Rightarrow> Inl err | Inr out \<Rightarrow> mapKeys after out)"
    using before mapKeys_append [of before "[key] @ after" "[]"]
      mapKeys_append [of "[key]" after outBefore]
    by simp
  show ?thesis
  proof (cases "mapKeys [key] []")
    case (Inl err)
    then show ?thesis
      using before one mapKeys_from [of "[key]" outBefore] by simp
  next
    case key: (Inr outKey)
    then have two: "mapKeys [key] outBefore = Inr (outBefore @ outKey)"
      using mapKeys_from [of "[key]" outBefore] by simp
    show ?thesis
      using before key one two mapKeys_from [of after "outBefore @ outKey"]
      by (simp split: sum.splits)
  qed
qed

lemma mapKeys_tagged:
  "\<forall>key\<in>set keys. Algorithm key \<noteq> '''' \<Longrightarrow> mapKeys keys newKeys = Inr (newKeys @ keys)"
  by (induction keys arbitrary: newKeys) (simp_all add: AddKey_def)

lemma mapKeys_output_tagged:
  "mapKeys keys newKeys = Inr out \<Longrightarrow> \<forall>key\<in>set newKeys. Algorithm key \<noteq> '''' \<Longrightarrow>
     \<forall>key\<in>set out. Algorithm key \<noteq> ''''"
proof (induction keys arbitrary: newKeys)
  case Nil
  then show ?case by simp
next
  case (Cons key keys)
  show ?case
  proof (cases "Algorithm key \<noteq> ''''")
    case True
    with Cons.prems have "mapKeys keys (newKeys @ [key]) = Inr out"
      by (simp add: AddKey_def)
    moreover have "\<forall>k\<in>set (newKeys @ [key]). Algorithm k \<noteq> ''''"
      using True Cons.prems(2) by simp
    ultimately show ?thesis by (rule Cons.IH)
  next
    case False
    with Cons.prems obtain algs where algs: "keyToAlgs key = Inr algs"
      and rest: "mapKeys keys (newKeys @ map (\<lambda>alg. key\<lparr>Algorithm := alg\<rparr>) algs) = Inr out"
      by (auto simp: addClones_appends split: sum.splits)
    have "\<forall>k\<in>set (newKeys @ map (\<lambda>alg. key\<lparr>Algorithm := alg\<rparr>) algs). Algorithm k \<noteq> ''''"
      using Cons.prems(2) algs_nonempty [OF algs] by auto
    with rest show ?thesis by (rule Cons.IH)
  qed
qed

text \<open>Every key of a set the mapping returns without error declares an algorithm, and
  mapping that set again (what \<^verbatim>\<open>TestExpandKeySetByAlgorithm\<close> does with \<^verbatim>\<open>again\<close>)
  returns it as it is.\<close>

lemma mapMissingAlgorithms_output_tagged:
  assumes "mapMissingAlgorithms url keySet = (newKeys, None)"
  shows "\<forall>key\<in>set newKeys. Algorithm key \<noteq> ''''"
proof -
  from assms have "mapKeys keySet [] = Inr newKeys"
    by (simp add: mapMissingAlgorithms_def split: sum.splits)
  then show ?thesis
    by (rule mapKeys_output_tagged) simp
qed

lemma mapMissingAlgorithms_idempotent:
  assumes "mapMissingAlgorithms url keySet = (newKeys, None)"
  shows "mapMissingAlgorithms url' newKeys = (newKeys, None)"
  using mapMissingAlgorithms_output_tagged [OF assms]
  by (simp add: mapMissingAlgorithms_def mapKeys_tagged)

lemma mapKeys_first_failure:
  assumes "key \<in> set keys" and "Algorithm key = ''''" and "keyToAlgs key = Inl err"
  shows "\<exists>before k after err'.
           keys = before @ k # after \<and>
           (\<forall>x\<in>set before. Algorithm x \<noteq> '''' \<or> (\<exists>algs. keyToAlgs x = Inr algs)) \<and>
           Algorithm k = '''' \<and> keyToAlgs k = Inl err' \<and>
           mapKeys keys newKeys = Inl err'"
  using assms
proof (induction keys arbitrary: newKeys)
  case Nil
  then show ?case by simp
next
  case (Cons k keys)
  show ?case
  proof (cases "Algorithm k = '''' \<and> (\<exists>e. keyToAlgs k = Inl e)")
    case True
    then obtain e where "Algorithm k = ''''" and "keyToAlgs k = Inl e"
      by blast
    then have "k # keys = [] @ k # keys \<and>
        (\<forall>x\<in>set []. Algorithm x \<noteq> '''' \<or> (\<exists>algs. keyToAlgs x = Inr algs)) \<and>
        Algorithm k = '''' \<and> keyToAlgs k = Inl e \<and> mapKeys (k # keys) newKeys = Inl e"
      by simp
    then show ?thesis by blast
  next
    case False
    then have passes: "Algorithm k \<noteq> '''' \<or> (\<exists>algs. keyToAlgs k = Inr algs)"
      by (cases "keyToAlgs k") auto
    from False have "key \<noteq> k" using Cons.prems by auto
    with Cons.prems have mem: "key \<in> set keys" by simp
    have "\<exists>newKeys'. mapKeys (k # keys) newKeys = mapKeys keys newKeys'"
    proof (cases "Algorithm k \<noteq> ''''")
      case True
      then have "mapKeys (k # keys) newKeys = mapKeys keys (newKeys @ [k])"
        by (simp add: AddKey_def)
      then show ?thesis ..
    next
      case untagged: False
      with passes obtain algs where "keyToAlgs k = Inr algs"
        by auto
      with untagged have "mapKeys (k # keys) newKeys =
          mapKeys keys (newKeys @ map (\<lambda>alg. k\<lparr>Algorithm := alg\<rparr>) algs)"
        by (simp add: addClones_appends)
      then show ?thesis ..
    qed
    then obtain newKeys' where step: "mapKeys (k # keys) newKeys = mapKeys keys newKeys'" ..
    from Cons.IH [OF mem Cons.prems(2,3), of newKeys']
    obtain before k' after err' where rest: "keys = before @ k' # after"
      "\<forall>x\<in>set before. Algorithm x \<noteq> '''' \<or> (\<exists>algs. keyToAlgs x = Inr algs)"
      "Algorithm k' = ''''" "keyToAlgs k' = Inl err'" "mapKeys keys newKeys' = Inl err'"
      by blast
    from rest passes step have "k # keys = (k # before) @ k' # after \<and>
        (\<forall>x\<in>set (k # before). Algorithm x \<noteq> '''' \<or> (\<exists>algs. keyToAlgs x = Inr algs)) \<and>
        Algorithm k' = '''' \<and> keyToAlgs k' = Inl err' \<and> mapKeys (k # keys) newKeys = Inl err'"
      by simp
    then show ?thesis by blast
  qed
qed

text \<open>
  \<^bold>\<open>C4.\<close> An RSA key that declares no algorithm is replaced by exactly six entries,
  one for each of RS256, RS384, RS512, PS256, PS384, PS512 in that order; each entry is the
  key with only its algorithm field changed, so key-id and material are the source key's.
  So it is for the key alone in a set, and so it is at its place in any set: the keys
  before and after are mapped on their own, and the new set is returned unless one of them
  makes the mapping fail (then the set given comes back with that error).
\<close>

theorem mapMissingAlgorithms_RSA_six_clones:
  assumes "KeyType key = RSA" and "Algorithm key = ''''"
  shows "mapMissingAlgorithms url [key] =
     (map (\<lambda>alg. key\<lparr>Algorithm := alg\<rparr>) [RS256, RS384, RS512, PS256, PS384, PS512], None) \<and>
   mapMissingAlgorithms url (before @ key # after) =
     (case mapMissingAlgorithms url before of
        (_, Some err) \<Rightarrow> (before @ key # after, Some err)
      | (outBefore, None) \<Rightarrow>
          (case mapMissingAlgorithms url after of
             (_, Some err) \<Rightarrow> (before @ key # after, Some err)
           | (outAfter, None) \<Rightarrow>
               (outBefore @
                map (\<lambda>alg. key\<lparr>Algorithm := alg\<rparr>) [RS256, RS384, RS512, PS256, PS384, PS512] @
                outAfter, None)))"
proof -
  have one: "mapKeys [key] [] =
      Inr (map (\<lambda>alg. key\<lparr>Algorithm := alg\<rparr>) [RS256, RS384, RS512, PS256, PS384, PS512])"
    using assms by (simp add: keyToAlgs_RSA addClones_appends)
  then have "mapMissingAlgorithms url [key] =
     (map (\<lambda>alg. key\<lparr>Algorithm := alg\<rparr>) [RS256, RS384, RS512, PS256, PS384, PS512], None)"
    by (simp add: mapMissingAlgorithms_def)
  moreover from one have "mapMissingAlgorithms url (before @ key # after) =
     (case mapMissingAlgorithms url before of
        (_, Some err) \<Rightarrow> (before @ key # after, Some err)
      | (outBefore, None) \<Rightarrow>
          (case mapMissingAlgorithms url after of
             (_, Some err) \<Rightarrow> (before @ key # after, Some err)
           | (outAfter, None) \<Rightarrow>
               (outBefore @
                map (\<lambda>alg. key\<lparr>Algorithm := alg\<rparr>) [RS256, RS384, RS512, PS256, PS384, PS512] @
                outAfter, None)))"
    by (simp add: mapMissingAlgorithms_def mapKeys_split [of before key after]
        split: sum.splits)
  ultimately show ?thesis ..
qed

theorem mapMissingAlgorithms_RSA_six_clones_witness:
  "mapMissingAlgorithms ''localhost'' [ec_es256_kid1, rsa_private_kid123, okp_key] =
     ([ec_es256_kid1,
       \<lparr>KeyType = ''RSA'', Algorithm = ''RS256'', KeyID = ''kid123'', Raw = Inr OtherRawKey,
        Material = ''rsa-2048''\<rparr>,
       \<lparr>KeyType = ''RSA'', Algorithm = ''RS384'', KeyID = ''kid123'', Raw = Inr OtherRawKey,
        Material = ''rsa-2048''\<rparr>,
       \<lparr>KeyType = ''RSA'', Algorithm = ''RS512'', KeyID = ''kid123'', Raw = Inr OtherRawKey,
        Material = ''rsa-2048''\<rparr>,
       \<lparr>KeyType = ''RSA'', Algorithm = ''PS256'', KeyID = ''kid123'', Raw = Inr OtherRawKey,
        Material = ''rsa-2048''\<rparr>,
       \<lparr>KeyType = ''RSA'', Algorithm = ''PS384'', KeyID = ''kid123'', Raw = Inr OtherRawKey,
        Material = ''rsa-2048''\<rparr>,
       \<lparr>KeyType = ''RSA'', Algorithm = ''PS512'', KeyID = ''kid123'', Raw = Inr OtherRawKey,
        Material = ''rsa-2048''\<rparr>,
       okp_key\<lparr>Algorithm := ''EdDSA''\<rparr>], None)"
proof -
  have rsa: "KeyType rsa_private_kid123 = RSA" "Algorithm rsa_private_kid123 = ''''"
    by (simp_all add: rsa_private_kid123_def)
  have before: "mapMissingAlgorithms ''localhost'' [ec_es256_kid1] = ([ec_es256_kid1], None)"
    by (simp add: mapMissingAlgorithms_def AddKey_def ec_es256_kid1_def)
  have after: "mapMissingAlgorithms ''localhost'' [okp_key] =
      ([okp_key\<lparr>Algorithm := ''EdDSA''\<rparr>], None)"
    by (simp add: mapMissingAlgorithms_def keyToAlgs_def addClones_appends okp_key_def
        KeyType_defs SignatureAlgorithm_defs)
  show ?thesis
    using mapMissingAlgorithms_RSA_six_clones
      [OF rsa, of "''localhost''" "[ec_es256_kid1]" "[okp_key]"] before after
    by (simp add: rsa_private_kid123_def KeyType_defs SignatureAlgorithm_defs)
qed

text \<open>
  \<^bold>\<open>C6.\<close> A key that declares an algorithm goes into the new set as it is and exactly
  once: it is not cloned, not expanded, and \<open>keyToAlgs\<close> is not asked about it (so it
  cannot make the mapping fail, whatever its type). So it is for the key alone in a set,
  and so it is at its place in any set: the keys before and after are mapped on their
  own, and the new set is returned unless one of them makes the mapping fail.
\<close>

theorem mapMissingAlgorithms_tagged_key_kept:
  assumes "Algorithm key \<noteq> ''''"
  shows "mapMissingAlgorithms url [key] = ([key], None) \<and>
   mapMissingAlgorithms url (before @ key # after) =
     (case mapMissingAlgorithms url before of
        (_, Some err) \<Rightarrow> (before @ key # after, Some err)
      | (outBefore, None) \<Rightarrow>
          (case mapMissingAlgorithms url after of
             (_, Some err) \<Rightarrow> (before @ key # after, Some err)
           | (outAfter, None) \<Rightarrow> (outBefore @ [key] @ outAfter, None)))"
proof -
  have one: "mapKeys [key] [] = Inr [key]"
    using assms by (simp add: AddKey_def)
  then have "mapMissingAlgorithms url [key] = ([key], None)"
    by (simp add: mapMissingAlgorithms_def)
  moreover from one have "mapMissingAlgorithms url (before @ key # after) =
     (case mapMissingAlgorithms url before of
        (_, Some err) \<Rightarrow> (before @ key # after, Some err)
      | (outBefore, None) \<Rightarrow>
          (case mapMissingAlgorithms url after of
             (_, Some err) \<Rightarrow> (before @ key # after, Some err)
           | (outAfter, None) \<Rightarrow> (outBefore @ [key] @ outAfter, None)))"
    by (simp add: mapMissingAlgorithms_def mapKeys_split [of before key after]
        split: sum.splits)
  ultimately show ?thesis ..
qed

theorem mapMissingAlgorithms_tagged_key_kept_witness:
  "mapMissingAlgorithms ''localhost'' [ec_256_public_kid123, ec_es256_kid1] =
     ([ec_256_public_kid123\<lparr>Algorithm := ''ES256''\<rparr>, ec_es256_kid1], None) \<and>
   mapMissingAlgorithms ''localhost'' [oct_key\<lparr>Algorithm := ''HS256''\<rparr>] =
     ([oct_key\<lparr>Algorithm := ''HS256''\<rparr>], None)"
proof -
  have tagged: "Algorithm ec_es256_kid1 \<noteq> ''''"
    by (simp add: ec_es256_kid1_def)
  have tagged': "Algorithm (oct_key\<lparr>Algorithm := ''HS256''\<rparr>) \<noteq> ''''"
    by simp
  have before: "mapMissingAlgorithms ''localhost'' [ec_256_public_kid123] =
      ([ec_256_public_kid123\<lparr>Algorithm := ''ES256''\<rparr>], None)"
    by (simp add: mapMissingAlgorithms_def keyToAlgs_def addClones_appends
        ec_256_public_kid123_def KeyType_defs SignatureAlgorithm_defs)
  have none: "mapMissingAlgorithms ''localhost'' [] = ([], None)"
    by (simp add: mapMissingAlgorithms_def)
  show ?thesis
    using mapMissingAlgorithms_tagged_key_kept
        [OF tagged, of "''localhost''" "[ec_256_public_kid123]" "[]"]
      mapMissingAlgorithms_tagged_key_kept [OF tagged', of "''localhost''" "[]" "[]"]
      before none
    by simp
qed

text \<open>
  \<^bold>\<open>C2\<close>, as the code has it. When inference fails for a key of the set that declares
  no algorithm, the mapping does not drop that key and go on: it stops at the first such
  key (every key before it declares an algorithm or has one inferred) and returns the set
  it was given, untouched, together with that key's inference error. No new set is
  returned, so the keys that could be mapped are not delivered either.
\<close>

theorem mapMissingAlgorithms_inference_failure_is_returned:
  assumes "key \<in> set keySet" and "Algorithm key = ''''" and "keyToAlgs key = Inl err"
  shows "\<exists>before k after err'.
           keySet = before @ k # after \<and>
           (\<forall>x\<in>set before. Algorithm x \<noteq> '''' \<or> (\<exists>algs. keyToAlgs x = Inr algs)) \<and>
           Algorithm k = '''' \<and> keyToAlgs k = Inl err' \<and>
           mapMissingAlgorithms url keySet = (keySet, Some err')"
proof -
  from mapKeys_first_failure [OF assms, of "[]"]
  obtain before k after err' where "keySet = before @ k # after"
    "\<forall>x\<in>set before. Algorithm x \<noteq> '''' \<or> (\<exists>algs. keyToAlgs x = Inr algs)"
    "Algorithm k = ''''" "keyToAlgs k = Inl err'" "mapKeys keySet [] = Inl err'"
    by blast
  then have "keySet = before @ k # after \<and>
      (\<forall>x\<in>set before. Algorithm x \<noteq> '''' \<or> (\<exists>algs. keyToAlgs x = Inr algs)) \<and>
      Algorithm k = '''' \<and> keyToAlgs k = Inl err' \<and>
      mapMissingAlgorithms url keySet = (keySet, Some err')"
    by (simp add: mapMissingAlgorithms_def)
  then show ?thesis by blast
qed

theorem mapMissingAlgorithms_inference_failure_is_returned_witness:
  "\<exists>before k after err'.
     [ec_es256_kid1, rsa_private_kid123, oct_key, ec_224_key] = before @ k # after \<and>
     (\<forall>x\<in>set before. Algorithm x \<noteq> '''' \<or> (\<exists>algs. keyToAlgs x = Inr algs)) \<and>
     Algorithm k = '''' \<and> keyToAlgs k = Inl err' \<and>
     mapMissingAlgorithms ''localhost'' [ec_es256_kid1, rsa_private_kid123, oct_key, ec_224_key] =
       ([ec_es256_kid1, rsa_private_kid123, oct_key, ec_224_key], Some err')"
proof -
  have "ec_224_key \<in> set [ec_es256_kid1, rsa_private_kid123, oct_key, ec_224_key]"
    by simp
  moreover have "Algorithm ec_224_key = ''''"
    by (simp add: ec_224_key_def)
  moreover have "keyToAlgs ec_224_key = Inl (unsupported EC)"
    by (simp add: keyToAlgs_def ec_224_key_def KeyType_defs)
  ultimately show ?thesis
    by (rule mapMissingAlgorithms_inference_failure_is_returned)
qed

text \<open>
  \<^bold>\<open>C2\<close> as the specification states it (the failing key alone is dropped and the
  refresh goes on with the others) fails on a set of two keys: a symmetric key with no
  algorithm, for which inference fails, and the ES256 key of \<^verbatim>\<open>TestGetKeys\<close>. The
  mapping returns the error and the set as given; it does not return the set holding the
  ES256 key alone.
\<close>

theorem mapMissingAlgorithms_drops_failing_key_counterexample:
  "mapMissingAlgorithms ''localhost'' [oct_key, ec_es256_kid1] =
     ([oct_key, ec_es256_kid1], Some (Errorf ''unsupported key type oct'')) \<and>
   mapMissingAlgorithms ''localhost'' [oct_key, ec_es256_kid1] \<noteq> ([ec_es256_kid1], None)"
  by (simp add: mapMissingAlgorithms_def keyToAlgs_def unsupported_def oct_key_def
      ec_es256_kid1_def KeyType_defs)

section \<open>Capability check of JWT.valid\<close>

lemma rangeRequired_iff: "rangeRequired capability required \<longleftrightarrow> capability \<in> set required"
  by (induction required) auto

lemma rangeCapabilities_iff:
  "rangeCapabilities capabilities required \<longleftrightarrow>
     (\<exists>capability\<in>set capabilities. \<exists>serviceCapability\<in>set required.
        capability = serviceCapability)"
  by (induction capabilities) (auto simp: rangeRequired_iff)

text \<open>Before any capability is looked at, a token that is not \<^verbatim>\<open>basculejwt.Claims\<close>
  is refused as bad credentials, whatever is required.\<close>

lemma JWT_valid_not_claims:
  "JWT_valid cfg (BasicToken userName password) = Some ErrBadCredentials"
  "JWT_valid cfg (OtherToken who) = Some ErrBadCredentials"
  by (simp_all add: JWT_valid_def)

text \<open>
  \<^bold>\<open>C1.\<close> The capability check on a JWT token: when no capability is required (the
  list is nil or empty) the token is allowed; otherwise it is allowed exactly when some
  capability the token declares equals some required capability (one match is enough),
  and refused with \<open>ErrUnauthorized\<close> when there is none.
\<close>

theorem JWT_valid_any_one_capability:
  "JWT_valid cfg (Claims subject capabilities) =
     (if slice (RequiredServiceCapabilities cfg) = [] then None
      else if \<exists>capability\<in>set capabilities.
                \<exists>serviceCapability\<in>set (slice (RequiredServiceCapabilities cfg)).
                  capability = serviceCapability
      then None
      else Some ErrUnauthorized)"
  by (simp add: JWT_valid_def rangeCapabilities_iff)

theorem JWT_valid_any_one_capability_witness:
  "JWT_valid (JWT jwt_config) test_token = None \<and>
   JWT_valid (JWT jwt_config\<lparr>RequiredServiceCapabilities := Some []\<rparr>) test_token = None \<and>
   JWT_valid (JWT jwt_config\<lparr>RequiredServiceCapabilities := Some [''some-other-capability'']\<rparr>)
     test_token = Some ErrUnauthorized \<and>
   JWT_valid (JWT jwt_config\<lparr>RequiredServiceCapabilities :=
       Some [''some-other-capability'', ''alt-capability'']\<rparr>) test_token = None"
  using JWT_valid_any_one_capability
      [of "JWT jwt_config" "''test-subject''" "[''example-capability'', ''alt-capability'']"]
    JWT_valid_any_one_capability
      [of "JWT jwt_config\<lparr>RequiredServiceCapabilities := Some []\<rparr>"
          "''test-subject''" "[''example-capability'', ''alt-capability'']"]
    JWT_valid_any_one_capability
      [of "JWT jwt_config\<lparr>RequiredServiceCapabilities := Some [''some-other-capability'']\<rparr>"
          "''test-subject''" "[''example-capability'', ''alt-capability'']"]
    JWT_valid_any_one_capability
      [of "JWT jwt_config\<lparr>RequiredServiceCapabilities :=
             Some [''some-other-capability'', ''alt-capability'']\<rparr>"
          "''test-subject''" "[''example-capability'', ''alt-capability'']"]
  by (simp add: jwt_config_def test_token_def slice_def)

section \<open>Basic.valid\<close>

lemma rangeBasic_iff: "rangeBasic kvs userName password \<longleftrightarrow> (userName, password) \<in> set kvs"
  by (induction kvs) (auto split: if_splits)

lemma Basic_valid_not_basic:
  "Basic_valid cfg (Claims subject capabilities) = Some ErrBadCredentials"
  "Basic_valid cfg (OtherToken who) = Some ErrBadCredentials"
  by (simp_all add: Basic_valid_def)

text \<open>
  \<^bold>\<open>C8.\<close> A presented user name and password are accepted exactly when the pair is an
  entry of the table; every other pair gets the one value \<open>ErrBadCredentials\<close>, be the
  user name unknown or the password wrong for a known user name.
\<close>

theorem Basic_valid_uniform_failure:
  "Basic_valid cfg (BasicToken userName password) =
     (if (userName, password) \<in> set (entries cfg) then None else Some ErrBadCredentials)"
  by (simp add: Basic_valid_def rangeBasic_iff)

theorem Basic_valid_uniform_failure_witness:
  "Basic_valid (Basic basic_config) (BasicToken ''some-username'' ''some-password'') = None \<and>
   Basic_valid (Basic basic_config) (BasicToken ''some-username'' ''some-bad-password'') =
     Some ErrBadCredentials \<and>
   Basic_valid (Basic basic_config) (BasicToken ''nobody'' ''some-password'') =
     Some ErrBadCredentials"
  using Basic_valid_uniform_failure [of "Basic basic_config" "''some-username''" "''some-password''"]
    Basic_valid_uniform_failure [of "Basic basic_config" "''some-username''" "''some-bad-password''"]
    Basic_valid_uniform_failure [of "Basic basic_config" "''nobody''" "''some-password''"]
  by (simp add: basic_config_def entries_def)

section \<open>Validation of the configuration and New\<close>

text \<open>Against \<open>expect\<close> and \<^verbatim>\<open>Config{}\<close>, whose tables are nil, deep equality is
  equality.\<close>

lemma DeepEqual_expect: "DeepEqual c expect \<longleftrightarrow> c = expect"
  by (cases c) (auto simp: DeepEqual_def DeepEqual_Basic_def expect_def split: option.splits)

lemma DeepEqual_zero: "DeepEqual c Config_zero \<longleftrightarrow> c = Config_zero"
  by (cases c) (auto simp: DeepEqual_def DeepEqual_Basic_def Config_zero_def split: option.splits)

lemma eq_expect: "c = expect \<longleftrightarrow> Disable c \<and> Basic c = None \<and> JWT c = JWT_zero"
  by (cases c) (auto simp: expect_def)

lemma eq_zero: "c = Config_zero \<longleftrightarrow> \<not> Disable c \<and> Basic c = None \<and> JWT c = JWT_zero"
  by (cases c) (auto simp: Config_zero_def)

lemma applyOpts_WithConfig:
  "applyOpts ([Some (WithConfig c)] @ [Some validate]) \<lparr>middleware = None, config = Config_zero\<rparr> =
     (if Disable c \<and> (Basic c \<noteq> None \<or> JWT c \<noteq> JWT_zero) then
        Inl (Wrapf ErrInvalidConfig ''disable cannot have additional values'')
      else if \<not> Disable c \<and> Basic c = None \<and> JWT c = JWT_zero then
        Inl (Wrapf ErrInvalidConfig
          ''empty configuration is not valid, set 'disable' to true if no validation is wanted'')
      else Inr \<lparr>middleware = None, config = c\<rparr>)"
  by (auto simp: WithConfig_def validate_def DeepEqual_expect DeepEqual_zero eq_expect eq_zero)

text \<open>\<^verbatim>\<open>New(WithConfig(c))\<close>, as \<^verbatim>\<open>Module\<close> calls it, step by step.\<close>

lemma New_WithConfig:
  "New lib [Some (WithConfig c)] =
     (if Disable c \<and> (Basic c \<noteq> None \<or> JWT c \<noteq> JWT_zero) then
        Inl (Wrapf ErrInvalidConfig ''disable cannot have additional values'')
      else if \<not> Disable c \<and> Basic c = None \<and> JWT c = JWT_zero then
        Inl (Wrapf ErrInvalidConfig
          ''empty configuration is not valid, set 'disable' to true if no validation is wanted'')
      else
        (case
           (if Basic c \<noteq> None then
              (case Basic_middleware lib (Basic c) of
                 Inl err \<Rightarrow> Inl (Join err (Errorf ''error creating basic auth middleware''))
               | Inr m \<Rightarrow> Inr \<lparr>middleware = Some m, config = c\<rparr>)
            else Inr \<lparr>middleware = None, config = c\<rparr>)
         of
           Inl err \<Rightarrow> Inl err
         | Inr auth \<Rightarrow>
             (if URL (KeyProvider (JWT c)) \<noteq> '''' then
                (case JWT_middleware lib (JWT c) of
                   Inl err \<Rightarrow> Inl (Join err (Errorf ''error creating jwt middleware''))
                 | Inr m \<Rightarrow> Inr \<lparr>middleware = Some m, config = c\<rparr>)
              else Inr auth)))"
  unfolding New_def applyOpts_WithConfig
  by (auto split: sum.splits)

text \<open>No error of the library's constructors is \<open>ErrInvalidConfig\<close>.\<close>

lemma Basic_middleware_not_invalid:
  "Basic_middleware lib b = Inl err \<Longrightarrow> \<not> errors_Is err ErrInvalidConfig"
  by (auto simp: Basic_middleware_def split: option.splits)

lemma JWT_middleware_not_invalid:
  "JWT_middleware lib j = Inl err \<Longrightarrow> \<not> errors_Is err ErrInvalidConfig"
  by (auto simp: JWT_middleware_def toKeySet_def split: option.splits sum.splits)

lemma New_valid_not_invalid:
  assumes "\<not> (Disable c \<and> (Basic c \<noteq> None \<or> JWT c \<noteq> JWT_zero))"
    and "\<not> (\<not> Disable c \<and> Basic c = None \<and> JWT c = JWT_zero)"
    and "New lib [Some (WithConfig c)] = Inl err"
  shows "\<not> errors_Is err ErrInvalidConfig"
proof -
  have "(\<exists>e. Basic_middleware lib (Basic c) = Inl e \<and>
            err = Join e (Errorf ''error creating basic auth middleware'')) \<or>
        (\<exists>e. JWT_middleware lib (JWT c) = Inl e \<and>
            err = Join e (Errorf ''error creating jwt middleware''))"
    using assms unfolding New_WithConfig
    by (auto split: if_splits sum.splits)
  then show ?thesis
    by (auto dest: Basic_middleware_not_invalid JWT_middleware_not_invalid)
qed

text \<open>A configuration that passes validation can still fail to build, with an error
  that is not \<open>ErrInvalidConfig\<close>: here the HTTP client of the key provider.\<close>

lemma New_library_failure:
  "New no_client [Some (WithConfig jwt_config)] =
     Inl (Join (Join (LibraryError ''tls: failed to find any PEM data'')
                     (Errorf ''error getting public keys''))
               (Errorf ''error creating jwt middleware''))"
  unfolding New_WithConfig
  by (simp add: jwt_config_def no_client_def no_failures_def JWT_middleware_def toKeySet_def
      JWT_zero_def Provider_zero_def)

text \<open>
  \<^bold>\<open>C7.\<close> \<^verbatim>\<open>New\<close> fails with an error that is \<open>ErrInvalidConfig\<close> exactly when the
  configuration is invalid, that is when \<open>Disable\<close> is set together with any other field,
  or when nothing at all is set. \<open>Disable\<close> alone is accepted and builds an \<^verbatim>\<open>Auth\<close>
  with no middleware. A configuration without \<open>Disable\<close> in which the table or any field
  of \<open>JWT\<close> is set is accepted by \<open>validate\<close> too, and \<^verbatim>\<open>New\<close> returns the
  \<^verbatim>\<open>Auth\<close> for it whenever the library builds the middleware. The decision is taken in
  \<^verbatim>\<open>New\<close>: an invalid configuration yields no \<^verbatim>\<open>Auth\<close>, so no request ever meets
  one.
\<close>

theorem New_rejects_exactly_invalid_config:
  "((\<exists>err. New lib [Some (WithConfig c)] = Inl err \<and> errors_Is err ErrInvalidConfig) \<longleftrightarrow>
      (Disable c \<and> (Basic c \<noteq> None \<or> JWT c \<noteq> JWT_zero)) \<or>
      (\<not> Disable c \<and> Basic c = None \<and> JWT c = JWT_zero)) \<and>
   (Disable c \<and> Basic c = None \<and> JWT c = JWT_zero \<longrightarrow>
      New lib [Some (WithConfig c)] = Inr \<lparr>middleware = None, config = c\<rparr>) \<and>
   (\<not> Disable c \<and> (Basic c \<noteq> None \<or> JWT c \<noteq> JWT_zero) \<longrightarrow>
      validate \<lparr>middleware = None, config = c\<rparr> = Inr \<lparr>middleware = None, config = c\<rparr> \<and>
      (builds lib c \<longrightarrow> (\<exists>auth. New lib [Some (WithConfig c)] = Inr auth \<and> config auth = c)))"
proof (intro conjI impI iffI)
  assume "\<exists>err. New lib [Some (WithConfig c)] = Inl err \<and> errors_Is err ErrInvalidConfig"
  then show "(Disable c \<and> (Basic c \<noteq> None \<or> JWT c \<noteq> JWT_zero)) \<or>
      (\<not> Disable c \<and> Basic c = None \<and> JWT c = JWT_zero)"
    using New_valid_not_invalid [of c lib] by blast
next
  assume "(Disable c \<and> (Basic c \<noteq> None \<or> JWT c \<noteq> JWT_zero)) \<or>
      (\<not> Disable c \<and> Basic c = None \<and> JWT c = JWT_zero)"
  then show "\<exists>err. New lib [Some (WithConfig c)] = Inl err \<and> errors_Is err ErrInvalidConfig"
    unfolding New_WithConfig by auto
next
  assume "Disable c \<and> Basic c = None \<and> JWT c = JWT_zero"
  then show "New lib [Some (WithConfig c)] = Inr \<lparr>middleware = None, config = c\<rparr>"
    unfolding New_WithConfig by (simp add: JWT_zero_def Provider_zero_def)
next
  assume "\<not> Disable c \<and> (Basic c \<noteq> None \<or> JWT c \<noteq> JWT_zero)"
  then show "validate \<lparr>middleware = None, config = c\<rparr> = Inr \<lparr>middleware = None, config = c\<rparr>"
    by (auto simp: validate_def DeepEqual_zero eq_zero)
next
  assume "\<not> Disable c \<and> (Basic c \<noteq> None \<or> JWT c \<noteq> JWT_zero)" and "builds lib c"
  then show "\<exists>auth. New lib [Some (WithConfig c)] = Inr auth \<and> config auth = c"
    unfolding New_WithConfig
    by (auto simp: builds_def Basic_middleware_def JWT_middleware_def toKeySet_def)
qed

theorem New_rejects_exactly_invalid_config_witness:
  "(\<exists>err. New no_failures [Some (WithConfig (basic_config\<lparr>Disable := True\<rparr>))] = Inl err \<and>
          errors_Is err ErrInvalidConfig) \<and>
   (\<exists>err. New no_failures [Some (WithConfig Config_zero)] = Inl err \<and>
          errors_Is err ErrInvalidConfig) \<and>
   New no_failures [Some (WithConfig expect)] = Inr \<lparr>middleware = None, config = expect\<rparr> \<and>
   (\<exists>auth. New no_failures [Some (WithConfig basic_config)] = Inr auth \<and>
           config auth = basic_config) \<and>
   (\<exists>auth. New no_failures [Some (WithConfig jwt_config)] = Inr auth \<and>
           config auth = jwt_config)"
  using New_rejects_exactly_invalid_config [of no_failures "basic_config\<lparr>Disable := True\<rparr>"]
    New_rejects_exactly_invalid_config [of no_failures Config_zero]
    New_rejects_exactly_invalid_config [of no_failures expect]
    New_rejects_exactly_invalid_config [of no_failures basic_config]
    New_rejects_exactly_invalid_config [of no_failures jwt_config]
  by (simp add: builds_def no_failures_def basic_config_def jwt_config_def Config_zero_def
      expect_def JWT_zero_def Provider_zero_def)

text \<open>
  \<^bold>\<open>C10.\<close> When both the table and the URL of the key provider are set, an \<^verbatim>\<open>Auth\<close>
  that \<^verbatim>\<open>New\<close> returns always carries the JWT middleware, bound to the JWT settings of
  the configuration: the basic middleware built first is overwritten and never the one
  installed. And \<^verbatim>\<open>New\<close> does return one, this one, when \<open>Disable\<close> is off and the
  library builds both middlewares.
\<close>

theorem New_JWT_overrides_Basic:
  assumes "Basic c \<noteq> None" and "URL (KeyProvider (JWT c)) \<noteq> ''''"
  shows "(\<forall>auth. New lib [Some (WithConfig c)] = Inr auth \<longrightarrow>
            (\<exists>keys. middleware auth = Some (JWTMiddleware (JWT c) keys))) \<and>
         (\<not> Disable c \<and> builds lib c \<longrightarrow>
            New lib [Some (WithConfig c)] =
              Inr \<lparr>middleware = Some (JWTMiddleware (JWT c)
                      \<lparr>SetURL = URL (KeyProvider (JWT c)),
                       SetRefreshInterval = RefreshInterval (KeyProvider (JWT c)),
                       PostFetcher = (\<not> DisableAutoAddMissingAlgorithm (KeyProvider (JWT c)))\<rparr>),
                   config = c\<rparr>)"
proof (intro conjI allI impI)
  fix auth
  assume "New lib [Some (WithConfig c)] = Inr auth"
  then show "\<exists>keys. middleware auth = Some (JWTMiddleware (JWT c) keys)"
    using assms unfolding New_WithConfig
    by (auto simp: JWT_middleware_def split: if_splits sum.splits option.splits)
next
  assume "\<not> Disable c \<and> builds lib c"
  then show "New lib [Some (WithConfig c)] =
              Inr \<lparr>middleware = Some (JWTMiddleware (JWT c)
                      \<lparr>SetURL = URL (KeyProvider (JWT c)),
                       SetRefreshInterval = RefreshInterval (KeyProvider (JWT c)),
                       PostFetcher = (\<not> DisableAutoAddMissingAlgorithm (KeyProvider (JWT c)))\<rparr>),
                   config = c\<rparr>"
    using assms unfolding New_WithConfig
    by (auto simp: builds_def Basic_middleware_def JWT_middleware_def toKeySet_def)
qed

theorem New_JWT_overrides_Basic_witness:
  "New no_failures [Some (WithConfig both_config)] =
     Inr \<lparr>middleware = Some (JWTMiddleware (JWT both_config)
             \<lparr>SetURL = ''http://127.0.0.1:8080'', SetRefreshInterval = 900000000000,
              PostFetcher = True\<rparr>),
          config = both_config\<rparr>"
proof -
  have both: "Basic both_config \<noteq> None" "URL (KeyProvider (JWT both_config)) \<noteq> ''''"
    by (simp_all add: both_config_def jwt_config_def)
  have ok: "\<not> Disable both_config \<and> builds no_failures both_config"
    by (simp add: both_config_def jwt_config_def builds_def no_failures_def)
  show ?thesis
    using New_JWT_overrides_Basic [OF both, of no_failures] ok
    by (simp add: both_config_def jwt_config_def)
qed

section \<open>Then\<close>

text \<open>
  \<^bold>\<open>C9.\<close> With no middleware, \<^verbatim>\<open>Then\<close> returns the handler it is given, the same
  function: every request, whatever it carries, is answered by that handler alone and
  nothing of this layer runs. This is the case of every \<^verbatim>\<open>Auth\<close> that \<^verbatim>\<open>New\<close> builds
  from a configuration with \<open>Disable\<close> set.
\<close>

theorem Then_without_middleware:
  "(middleware auth = None \<longrightarrow> Then ThenFunc auth h = h) \<and>
   (Disable c \<and> New lib [Some (WithConfig c)] = Inr auth \<longrightarrow> Then ThenFunc auth h = h)"
proof (intro conjI impI)
  assume "middleware auth = None"
  then show "Then ThenFunc auth h = h" by (simp add: Then_def)
next
  assume "Disable c \<and> New lib [Some (WithConfig c)] = Inr auth"
  then have "middleware auth = None"
    unfolding New_WithConfig
    by (auto simp: JWT_zero_def Provider_zero_def split: if_splits)
  then show "Then ThenFunc auth h = h" by (simp add: Then_def)
qed

theorem Then_without_middleware_witness:
  "New no_failures [Some (WithConfig expect)] = Inr \<lparr>middleware = None, config = expect\<rparr> \<and>
   (\<forall>request :: string.
      Then (\<lambda>m h request. 401 :: nat) \<lparr>middleware = None, config = expect\<rparr> (\<lambda>request. 200)
        request = 200)"
proof -
  have new: "New no_failures [Some (WithConfig expect)] =
      Inr \<lparr>middleware = None, config = expect\<rparr>"
    unfolding New_WithConfig by (simp add: expect_def JWT_zero_def Provider_zero_def)
  have "Disable expect" by (simp add: expect_def)
  with new Then_without_middleware
      [of "\<lparr>middleware = None, config = expect\<rparr>" "\<lambda>m h request. 401 :: nat"
          "\<lambda>request :: string. 200" expect no_failures]
  show ?thesis by simp
qed

end
